theory Spec2Isabelle
  imports Main
begin

section \<open>Values of the program\<close>

text \<open>
  A Python \<open>str\<close> is a sequence of Unicode code points; \<open>py\<close> turns an ASCII literal
  into one.
\<close>

type_synonym str = "nat list"

definition py :: "string \<Rightarrow> str" where
  "py s = map of_char s"

text \<open>
  The values that \<open>json.loads\<close> produces and \<open>json.dumps\<close> accepts. \<open>JNull\<close> is
  Python's \<open>None\<close>. A dict is the list of its items in insertion order (keys distinct);
  a float is named by its \<open>repr\<close>, the text \<open>json.dumps\<close> writes for it (the program
  does no arithmetic).
\<close>

datatype json =
    JNull
  | JBool bool
  | JInt int
  | JFloat str
  | JStr str
  | JArr "json list"
  | JObj "(str \<times> json) list"

text \<open>
  The exceptions below \<open>Exception\<close>, which \<open>except Exception\<close> catches; \<open>ServiceError\<close>
  stands for what the client of the endpoint raises. \<open>KeyboardInterrupt\<close> is not one of
  them.
\<close>

datatype exn =
    KeyError json
  | IndexError
  | TypeError
  | AttributeError
  | FileNotFoundError
  | PermissionError
  | JSONDecodeError
  | EOFError
  | ServiceError str

datatype raised = Exception exn | KeyboardInterrupt

text \<open>\<open>v[k]\<close> for a string key \<open>k\<close>, and \<open>v[0]\<close>.\<close>

fun subscript_key :: "json \<Rightarrow> str \<Rightarrow> exn + json" where
  "subscript_key (JObj kvs) k =
     (case map_of kvs k of None \<Rightarrow> Inl (KeyError (JStr k)) | Some v \<Rightarrow> Inr v)"
| "subscript_key _ k = Inl TypeError"

fun subscript_0 :: "json \<Rightarrow> exn + json" where
  "subscript_0 (JArr xs) = (case xs of [] \<Rightarrow> Inl IndexError | x # _ \<Rightarrow> Inr x)"
| "subscript_0 (JStr s) = (case s of [] \<Rightarrow> Inl IndexError | c # _ \<Rightarrow> Inr (JStr [c]))"
| "subscript_0 (JObj kvs) = Inl (KeyError (JInt 0))"
| "subscript_0 _ = Inl TypeError"

section \<open>ROLE\_PROMPTS\<close>

definition prompt_default :: str where
  "prompt_default =
     py ''You are Claude, an AI assistant created by Anthropic. '' @ [10] @
     py ''                 You are helpful, harmless, and honest.''"

definition prompt_translator :: str where
  "prompt_translator =
     py ''You are a professional translator. '' @ [10] @
     py ''                    Always maintain the original meaning while providing natural translations. '' @ [10] @
     py ''                    When translating, consider cultural context and local expressions.'' @ [10] @
     py ''                    Please respond in the target language directly.''"

definition prompt_programmer :: str where
  "prompt_programmer =
     py ''You are an experienced software developer.'' @ [10] @
     py ''                    Provide clear, well-documented code examples.'' @ [10] @
     py ''                    Focus on best practices and explain your reasoning.'' @ [10] @
     py ''                    Always include comments in Traditional Chinese.''"

definition prompt_teacher :: str where
  "prompt_teacher =
     py ''You are a patient and knowledgeable teacher.'' @ [10] @
     py ''                 Break down complex concepts into simple terms.'' @ [10] @
     py ''                 Use examples and analogies to explain difficult topics.'' @ [10] @
     py ''                 Please respond in Traditional Chinese.''"

definition prompt_business_analyst :: str where
  "prompt_business_analyst =
     py ''You are a business analysis expert.'' @ [10] @
     py ''                         Provide detailed market insights and data-driven analysis.'' @ [10] @
     py ''                         Focus on practical business recommendations.'' @ [10] @
     py ''                         Please respond in Traditional Chinese.''"

text \<open>The sixth prompt is Chinese text, given by its code points.\<close>

definition prompt_aws_sa :: str where
  "prompt_aws_sa =
     [20320, 26159, 19968, 20491, 32, 65, 87, 83, 32, 83, 111, 108, 117, 116, 105, 111, 110,
      115, 32, 65, 114, 99, 104, 105, 116, 101, 99, 116, 46] @ [10] @
     replicate 25 32 @
     [20320, 26371, 29992, 21488, 28771, 20013, 25991, 22238, 31572, 38364, 26044, 65, 87, 83,
      30340, 25152, 26377, 25216, 34899, 12289, 26550, 27083, 21839, 38988, 65292, 20294,
      36935, 21040, 23560, 26377, 21517, 35422, 20320, 26371, 20351, 29992, 21407, 20358,
      30340, 33521, 25991, 19981, 26371, 36914, 34892, 32763, 35695, 12290] @ [10] @
     replicate 25 32 @
     [35498, 26126, 36942, 31243, 35201, 26377, 26781, 26377, 29702]"

text \<open>The dict, in its insertion order (the order \<open>ROLE_PROMPTS.keys()\<close> lists).\<close>

definition ROLE_PROMPTS :: "(str \<times> str) list" where
  "ROLE_PROMPTS =
     [(py ''default'', prompt_default),
      (py ''translator'', prompt_translator),
      (py ''programmer'', prompt_programmer),
      (py ''teacher'', prompt_teacher),
      (py ''business_analyst'', prompt_business_analyst),
      (py ''aws_sa'', prompt_aws_sa)]"

text \<open>\<open>ROLE_PROMPTS[r]\<close>: a missing key raises \<open>KeyError\<close>.\<close>

definition role_prompt :: "str \<Rightarrow> exn + str" where
  "role_prompt r =
     (case map_of ROLE_PROMPTS r of None \<Rightarrow> Inl (KeyError (JStr r)) | Some p \<Rightarrow> Inr p)"

section \<open>The methods of str that main uses\<close>

text \<open>
  \<open>str.isspace\<close> on one character: the Unicode whitespace code points.
\<close>

definition str_isspace :: "nat \<Rightarrow> bool" where
  "str_isspace c \<longleftrightarrow>
     (9 \<le> c \<and> c \<le> 13) \<or> (28 \<le> c \<and> c \<le> 32) \<or> c = 133 \<or> c = 160 \<or> c = 5760 \<or>
     (8192 \<le> c \<and> c \<le> 8202) \<or> c = 8232 \<or> c = 8233 \<or> c = 8239 \<or> c = 8287 \<or> c = 12288"

definition str_strip :: "str \<Rightarrow> str" where
  "str_strip s = rev (dropWhile str_isspace (rev (dropWhile str_isspace s)))"

text \<open>
  \<open>str.lower\<close> on the code points below 256. No character above them has a lowercase
  form made of ASCII letters only, so the comparisons of main with its command
  words come out as in Python.
\<close>

definition lower_char :: "nat \<Rightarrow> nat" where
  "lower_char c =
     (if (65 \<le> c \<and> c \<le> 90) \<or> (192 \<le> c \<and> c \<le> 222 \<and> c \<noteq> 215) then c + 32 else c)"

definition str_lower :: "str \<Rightarrow> str" where
  "str_lower s = map lower_char s"

definition str_startswith :: "str \<Rightarrow> str \<Rightarrow> bool" where
  "str_startswith s p \<longleftrightarrow> take (length p) s = p"

text \<open>\<open>s.split()\<close>: the maximal runs of non-whitespace; \<open>cur\<close> is the run being read.\<close>

fun split_from :: "str \<Rightarrow> str \<Rightarrow> str list" where
  "split_from cur [] = (if cur = [] then [] else [cur])"
| "split_from cur (x # xs) =
     (if str_isspace x
      then (if cur = [] then split_from [] xs else cur # split_from [] xs)
      else split_from (cur @ [x]) xs)"

definition str_split :: "str \<Rightarrow> str list" where
  "str_split s = split_from [] s"

text \<open>The truth value of a Python value, as \<open>if response:\<close> takes it.\<close>

fun truthy :: "json \<Rightarrow> bool" where
  "truthy JNull = False"
| "truthy (JBool b) = b"
| "truthy (JInt i) = (i \<noteq> 0)"
| "truthy (JFloat r) = (r \<noteq> py ''0.0'' \<and> r \<noteq> py ''-0.0'')"
| "truthy (JStr s) = (s \<noteq> [])"
| "truthy (JArr xs) = (xs \<noteq> [])"
| "truthy (JObj kvs) = (kvs \<noteq> [])"

section \<open>The world around the program\<close>

text \<open>The keyword arguments of \<open>invoke_model\<close>; \<open>body\<close> is the dict given to \<open>json.dumps\<close>.\<close>

record request =
  modelId :: str
  body :: json
  contentType :: str
  accept :: str

text \<open>
  A path names no file, a file that cannot be opened, or a file with its text.
\<close>

datatype file_state = Missing | Denied | Text str

text \<open>
  What the terminal delivers to one \<open>input()\<close>: a line, or the interrupt signal while
  main waits for the user; an exhausted terminal is end of file.
\<close>

datatype input_event = Line str | Interrupt

text \<open>One constructor for each \<open>print\<close> and each input prompt of the source.\<close>

datatype msg =
    Out_help_command str
  | Out_help_all
  | Out_current_role str
  | Out_role_setting str
  | Out_error exn
  | Out_loaded
  | Out_not_found
  | Out_banner
  | Prompt_you
  | Out_bye
  | Out_cleared
  | Out_saved
  | Out_roles "str list"
  | Prompt_role
  | Out_switched str
  | Out_invalid_role
  | Out_claude json
  | Out_sorry
  | Out_aborted
  | Out_unexpected exn

text \<open>
  \<^item> \<open>clock w n\<close> is what the \<open>n\<close>-th \<open>datetime.now().isoformat()\<close> returns;
  \<^item> \<open>bedrock w n req\<close> is the outcome of the \<open>n\<close>-th call of the endpoint, lines 164 to
    171: \<open>Inr\<close> the decoded \<open>response_body\<close>, \<open>Inl\<close> the exception when
    \<open>invoke_model\<close> raises or the body cannot be read or decoded;
  \<^item> \<open>requests\<close> are the requests sent so far;
  \<^item> \<open>json_dump\<close> is \<open>json.dump\<close> with \<open>ensure_ascii=False, indent=2\<close> (the text it
    writes) and \<open>json_load\<close> is \<open>json.load\<close>, both of the standard library.
\<close>

record world =
  clock :: "nat \<Rightarrow> str"
  ticks :: nat
  bedrock :: "nat \<Rightarrow> request \<Rightarrow> exn + json"
  requests :: "request list"
  files :: "str \<Rightarrow> file_state"
  json_dump :: "json \<Rightarrow> str"
  json_load :: "str \<Rightarrow> exn + json"
  stdin :: "input_event list"
  stdout :: "msg list"

definition print :: "msg \<Rightarrow> world \<Rightarrow> world" where
  "print m w = w\<lparr>stdout := stdout w @ [m]\<rparr>"

definition input :: "msg \<Rightarrow> world \<Rightarrow> (raised + str) \<times> world" where
  "input prompt w =
     (case stdin w of
        [] \<Rightarrow> (Inl (Exception EOFError), print prompt w)
      | Interrupt # rest \<Rightarrow> (Inl KeyboardInterrupt, (print prompt w)\<lparr>stdin := rest\<rparr>)
      | Line s # rest \<Rightarrow> (Inr s, (print prompt w)\<lparr>stdin := rest\<rparr>))"

definition invoke_model :: "request \<Rightarrow> world \<Rightarrow> (exn + json) \<times> world" where
  "invoke_model req w =
     (bedrock w (length (requests w)) req, w\<lparr>requests := requests w @ [req]\<rparr>)"

section \<open>BedrockChat\<close>

text \<open>
  The fields of the object that a method writes or that differ between objects.
  \<open>conversation_history\<close> is a Python value: a list from the constructor on, and whatever
  \<open>json.load\<close> returned after \<open>load_conversation\<close>. The field \<open>bedrock_runtime\<close> is the
  endpoint of the world, and \<open>available_commands\<close> is the constant \<open>COMMAND_HELP\<close>.
  The constructor stores \<open>role_type\<close> as it is given; its default is \<open>"default"\<close>.
\<close>

record BedrockChat =
  conversation_history :: json
  model_id :: str
  current_role :: str


text \<open>
  A method either returns, or raises leaving the world and the object as they are at
  the raise.
\<close>

type_synonym 'a outcome = "(exn \<times> world \<times> BedrockChat) + ('a \<times> world \<times> BedrockChat)"

text \<open>The keys of \<open>COMMAND_HELP\<close>; the texts under them are only printed.\<close>

definition COMMAND_HELP :: "str list" where
  "COMMAND_HELP = [py ''help'', py ''quit'', py ''clear'', py ''save'', py ''load'', py ''role'']"

definition show_help :: "str option \<Rightarrow> world \<times> BedrockChat \<Rightarrow> world \<times> BedrockChat" where
  "show_help command wc =
     (case wc of (w, c) \<Rightarrow>
        (case command of
           None \<Rightarrow> (print Out_help_all w, c)
         | Some cmd \<Rightarrow>
             if cmd \<noteq> [] \<and> cmd \<in> set COMMAND_HELP
             then (print (Out_help_command cmd) w, c)
             else (print Out_help_all w, c)))"

definition show_current_role :: "world \<times> BedrockChat \<Rightarrow> unit outcome" where
  "show_current_role wc =
     (case wc of (w, c) \<Rightarrow>
        (let w1 = print (Out_current_role (current_role c)) w in
         case role_prompt (current_role c) of
           Inl e \<Rightarrow> Inl (e, w1, c)
         | Inr p \<Rightarrow> Inr ((), print (Out_role_setting (take 100 p)) w1, c)))"

definition set_role :: "str \<Rightarrow> BedrockChat \<Rightarrow> bool \<times> BedrockChat" where
  "set_role role_type c =
     (if map_of ROLE_PROMPTS role_type \<noteq> None
      then (True, c\<lparr>current_role := role_type\<rparr>)
      else (False, c))"

definition turn :: "str \<Rightarrow> json \<Rightarrow> str \<Rightarrow> json" where
  "turn role content timestamp =
     JObj [(py ''role'', JStr role), (py ''content'', content),
           (py ''timestamp'', JStr timestamp)]"

text \<open>
  \<open>append\<close> exists on a list only; the attribute is looked up before the clock is read.
\<close>

definition add_to_history :: "str \<Rightarrow> json \<Rightarrow> world \<times> BedrockChat \<Rightarrow> unit outcome" where
  "add_to_history role content wc =
     (case wc of (w, c) \<Rightarrow>
        (case conversation_history c of
           JArr turns \<Rightarrow>
             Inr ((), w\<lparr>ticks := Suc (ticks w)\<rparr>,
                  c\<lparr>conversation_history := JArr (turns @ [turn role content (clock w (ticks w))])\<rparr>)
         | _ \<Rightarrow> Inl (AttributeError, w, c)))"

text \<open>The list comprehension of lines 147 to 152, one element and all of them.\<close>

definition message :: "json \<Rightarrow> exn + json" where
  "message m =
     (case subscript_key m (py ''role'') of
        Inl e \<Rightarrow> Inl e
      | Inr r \<Rightarrow>
          (case subscript_key m (py ''content'') of
             Inl e \<Rightarrow> Inl e
           | Inr ct \<Rightarrow> Inr (JObj [(py ''role'', r), (py ''content'', ct)])))"

fun messages_list :: "json list \<Rightarrow> exn + json list" where
  "messages_list [] = Inr []"
| "messages_list (m # ms) =
     (case message m of
        Inl e \<Rightarrow> Inl e
      | Inr x \<Rightarrow> (case messages_list ms of Inl e \<Rightarrow> Inl e | Inr xs \<Rightarrow> Inr (x # xs)))"

text \<open>
  Iterating a dict gives its keys and iterating a str its characters, all of them strings;
  the other values are not iterable.
\<close>

fun messages :: "json \<Rightarrow> exn + json list" where
  "messages (JArr turns) = messages_list turns"
| "messages (JObj kvs) = messages_list (map (\<lambda>kv. JStr (fst kv)) kvs)"
| "messages (JStr s) = messages_list (map (\<lambda>ch. JStr [ch]) s)"
| "messages _ = Inl TypeError"

definition request_body :: "json list \<Rightarrow> str \<Rightarrow> json" where
  "request_body msgs system =
     JObj [(py ''anthropic_version'', JStr (py ''bedrock-2023-05-31'')),
           (py ''messages'', JArr msgs),
           (py ''max_tokens'', JInt 4096),
           (py ''temperature'', JFloat (py ''0.7'')),
           (py ''top_p'', JFloat (py ''0.9'')),
           (py ''top_k'', JInt 250),
           (py ''system'', JStr system)]"

text \<open>\<open>response_body['content'][0]['text']\<close>\<close>

definition response_text :: "json \<Rightarrow> exn + json" where
  "response_text response_body =
     (case subscript_key response_body (py ''content'') of
        Inl e \<Rightarrow> Inl e
      | Inr blocks \<Rightarrow>
          (case subscript_0 blocks of
             Inl e \<Rightarrow> Inl e
           | Inr block \<Rightarrow> subscript_key block (py ''text'')))"

text \<open>The body of the \<open>try\<close> of \<open>get_response\<close>, and the method with its handler.\<close>

definition get_response_try :: "str \<Rightarrow> world \<times> BedrockChat \<Rightarrow> json outcome" where
  "get_response_try user_input wc =
     (case add_to_history (py ''user'') (JStr user_input) wc of
        Inl x \<Rightarrow> Inl x
      | Inr (_, w1, c1) \<Rightarrow>
          (case messages (conversation_history c1) of
             Inl e \<Rightarrow> Inl (e, w1, c1)
           | Inr msgs \<Rightarrow>
               (case role_prompt (current_role c1) of
                  Inl e \<Rightarrow> Inl (e, w1, c1)
                | Inr system \<Rightarrow>
                    (case invoke_model
                            \<lparr>modelId = model_id c1, body = request_body msgs system,
                             contentType = py ''application/json'',
                             accept = py ''application/json''\<rparr> w1 of
                       (Inl e, w2) \<Rightarrow> Inl (e, w2, c1)
                     | (Inr response_body, w2) \<Rightarrow>
                         (case response_text response_body of
                            Inl e \<Rightarrow> Inl (e, w2, c1)
                          | Inr assistant_response \<Rightarrow>
                              (case add_to_history (py ''assistant'') assistant_response (w2, c1) of
                                 Inl x \<Rightarrow> Inl x
                               | Inr (_, w3, c3) \<Rightarrow> Inr (assistant_response, w3, c3)))))))"

definition get_response :: "str \<Rightarrow> world \<times> BedrockChat \<Rightarrow> json \<times> world \<times> BedrockChat" where
  "get_response user_input wc =
     (case get_response_try user_input wc of
        Inr r \<Rightarrow> r
      | Inl (e, w, c) \<Rightarrow> (JNull, print (Out_error e) w, c))"

definition clear_history :: "BedrockChat \<Rightarrow> BedrockChat" where
  "clear_history c = c\<lparr>conversation_history := JArr []\<rparr>"

text \<open>
  \<open>open(filename, 'w')\<close> creates or truncates the file and \<open>open(filename, 'r')\<close> reads
  it; a file that cannot be opened raises \<open>PermissionError\<close>, and reading a path that
  names no file raises \<open>FileNotFoundError\<close>.
\<close>

definition open_write :: "str \<Rightarrow> world \<Rightarrow> exn + unit" where
  "open_write filename w =
     (case files w filename of Denied \<Rightarrow> Inl PermissionError | _ \<Rightarrow> Inr ())"

definition open_read :: "str \<Rightarrow> world \<Rightarrow> exn + str" where
  "open_read filename w =
     (case files w filename of
        Missing \<Rightarrow> Inl FileNotFoundError
      | Denied \<Rightarrow> Inl PermissionError
      | Text t \<Rightarrow> Inr t)"

definition save_conversation :: "str \<Rightarrow> world \<times> BedrockChat \<Rightarrow> unit outcome" where
  "save_conversation filename wc =
     (case wc of (w, c) \<Rightarrow>
        (case open_write filename w of
           Inl e \<Rightarrow> Inl (e, w, c)
         | Inr _ \<Rightarrow>
             Inr ((), w\<lparr>files := (files w)(filename := Text (json_dump w (conversation_history c)))\<rparr>,
                  c)))"

text \<open>The body of the \<open>try\<close> of \<open>load_conversation\<close>, and the method with its handler.\<close>

definition load_conversation_try :: "str \<Rightarrow> world \<times> BedrockChat \<Rightarrow> unit outcome" where
  "load_conversation_try filename wc =
     (case wc of (w, c) \<Rightarrow>
        (case open_read filename w of
           Inl e \<Rightarrow> Inl (e, w, c)
         | Inr t \<Rightarrow>
             (case json_load w t of
                Inl e \<Rightarrow> Inl (e, w, c)
              | Inr v \<Rightarrow> Inr ((), print Out_loaded w, c\<lparr>conversation_history := v\<rparr>))))"

definition load_conversation :: "str \<Rightarrow> world \<times> BedrockChat \<Rightarrow> unit outcome" where
  "load_conversation filename wc =
     (case load_conversation_try filename wc of
        Inr r \<Rightarrow> Inr r
      | Inl (e, w, c) \<Rightarrow>
          if e = FileNotFoundError then Inr ((), print Out_not_found w, c)
          else Inl (e, w, c))"

section \<open>main\<close>

datatype flow = Continue | Break

text \<open>The body of the \<open>try\<close> inside the loop: one command read and carried out.\<close>

definition main_try ::
  "world \<times> BedrockChat \<Rightarrow> (raised \<times> world \<times> BedrockChat) + (flow \<times> world \<times> BedrockChat)" where
  "main_try wc =
     (case wc of (w, c) \<Rightarrow>
      (case input Prompt_you w of
         (Inl e, w1) \<Rightarrow> Inl (e, w1, c)
       | (Inr line, w1) \<Rightarrow>
          (let user_input = str_strip line in
           if str_lower user_input = py ''help'' then
             (case show_help None (w1, c) of (w2, c2) \<Rightarrow> Inr (Continue, w2, c2))
           else if str_startswith (str_lower user_input) (py ''help '') then
             (case str_split (str_lower user_input) of
                _ # specific_command # _ \<Rightarrow>
                  (case show_help (Some specific_command) (w1, c) of
                     (w2, c2) \<Rightarrow> Inr (Continue, w2, c2))
              | _ \<Rightarrow> Inl (Exception IndexError, w1, c))
           else if str_lower user_input = py ''quit'' then
             Inr (Break, print Out_bye w1, c)
           else if str_lower user_input = py ''clear'' then
             Inr (Continue, print Out_cleared w1, clear_history c)
           else if str_lower user_input = py ''save'' then
             (case save_conversation (py ''chat_history.json'') (w1, c) of
                Inl (e, w2, c2) \<Rightarrow> Inl (Exception e, w2, c2)
              | Inr (_, w2, c2) \<Rightarrow> Inr (Continue, print Out_saved w2, c2))
           else if str_lower user_input = py ''load'' then
             (case load_conversation (py ''chat_history.json'') (w1, c) of
                Inl (e, w2, c2) \<Rightarrow> Inl (Exception e, w2, c2)
              | Inr (_, w2, c2) \<Rightarrow> Inr (Continue, w2, c2))
           else if str_lower user_input = py ''role'' then
             (case show_current_role (print (Out_roles (map fst ROLE_PROMPTS)) w1, c) of
                Inl (e, w2, c2) \<Rightarrow> Inl (Exception e, w2, c2)
              | Inr (_, w2, c2) \<Rightarrow>
                  (case input Prompt_role w2 of
                     (Inl e, w3) \<Rightarrow> Inl (e, w3, c2)
                   | (Inr line2, w3) \<Rightarrow>
                       (let new_role = str_strip line2 in
                        if new_role \<noteq> [] then
                          (case set_role new_role c2 of
                             (ok, c3) \<Rightarrow>
                               if ok then Inr (Continue, print (Out_switched new_role) w3, c3)
                               else Inr (Continue, print Out_invalid_role w3, c3))
                        else Inr (Continue, w3, c2))))
           else if user_input = [] then
             Inr (Continue, w1, c)
           else
             (case get_response user_input (w1, c) of
                (response, w2, c2) \<Rightarrow>
                  if truthy response then Inr (Continue, print (Out_claude response) w2, c2)
                  else Inr (Continue, print Out_sorry w2, c2)))))"

text \<open>One iteration of \<open>while True\<close> with the two handlers of the loop.\<close>

definition main_step :: "world \<times> BedrockChat \<Rightarrow> flow \<times> world \<times> BedrockChat" where
  "main_step wc =
     (case main_try wc of
        Inr r \<Rightarrow> r
      | Inl (x, w, c) \<Rightarrow>
          (case x of
             KeyboardInterrupt \<Rightarrow> (Break, print Out_aborted w, c)
           | Exception e \<Rightarrow> (Continue, print (Out_unexpected e) w, c)))"



section \<open>Sequences of method calls\<close>






section \<open>What a step may do to the role and the model identifier\<close>



section \<open>The history the specification expects, and concrete inputs\<close>


text \<open>A response of the endpoint with one text block.\<close>

definition reply_body :: "str \<Rightarrow> json" where
  "reply_body t =
     JObj [(py ''content'',
            JArr [JObj [(py ''type'', JStr (py ''text'')), (py ''text'', JStr t)]])]"

definition demo_history :: json where
  "demo_history =
     JArr [turn (py ''user'') (JStr (py ''Hello'')) (py ''T0''),
           turn (py ''assistant'') (JStr (py ''Bonjour'')) (py ''T1'')]"

text \<open>
  A world for the scenarios of the specification: the endpoint answers the first call
  with Bonjour and fails afterwards; no file exists; the library round-trips
  \<open>demo_history\<close>.
\<close>

definition demo_world :: world where
  "demo_world =
     \<lparr>clock = (\<lambda>n. py ''T'' @ [48 + n]),
      ticks = 0,
      bedrock = (\<lambda>n req. if n = 0 then Inr (reply_body (py ''Bonjour''))
                          else Inl (ServiceError (py ''timeout''))),
      requests = [],
      files = (\<lambda>f. Missing),
      json_dump = (\<lambda>v. if v = demo_history then py ''saved'' else []),
      json_load = (\<lambda>t. if t = py ''saved'' then Inr demo_history else Inl JSONDecodeError),
      stdin = [],
      stdout = []\<rparr>"



definition demo_chat1 :: BedrockChat where
  "demo_chat1 =
     \<lparr>conversation_history = demo_history,
      model_id = py ''anthropic.claude-3-sonnet-20240229-v1:0'',
      current_role = py ''translator''\<rparr>"


text \<open>
  Worlds for the command loop: the user types blanks (a space, a tab, an ideographic
  space), or the load command, or the role command and then a role; and worlds whose
  files cannot be opened or hold no JSON.
\<close>

definition blank_world :: world where
  "blank_world = demo_world\<lparr>stdin := [Line [32, 9, 12288]]\<rparr>"

definition load_world :: world where
  "load_world = demo_world\<lparr>stdin := [Line (py '' LOAD '')]\<rparr>"


definition denied_world :: world where
  "denied_world = load_world\<lparr>files := (\<lambda>f. Denied)\<rparr>"

definition garbled_world :: world where
  "garbled_world = load_world\<lparr>files := (\<lambda>f. Text (py ''{''))\<rparr>"

section \<open>Properties\<close>

lemma py_eq_iff: "py s = py t \<longleftrightarrow> s = t"
  unfolding py_def by (simp add: inj_map_eq_map inj_def)


lemma dom_ROLE_PROMPTS:
  "map_of ROLE_PROMPTS r \<noteq> None \<longleftrightarrow>
     r \<in> {py ''default'', py ''translator'', py ''programmer'', py ''teacher'',
          py ''business_analyst'', py ''aws_sa''}"
  unfolding ROLE_PROMPTS_def by (auto simp: py_eq_iff)



subsection \<open>One call of get\_response\<close>



subsection \<open>Successful exchanges\<close>








subsection \<open>Failed exchanges and the request\<close>







subsection \<open>Roles\<close>

text \<open>
  C3. \<open>set_role\<close> with a name outside the six keys of \<open>ROLE_PROMPTS\<close> returns False and
  leaves the object as it is; with one of the six names it returns True and the current
  role is that name.
\<close>

theorem set_role_by_membership:
  "(role_type \<notin> {py ''default'', py ''translator'', py ''programmer'', py ''teacher'',
                  py ''business_analyst'', py ''aws_sa''} \<longrightarrow>
      set_role role_type c = (False, c)) \<and>
   (role_type \<in> {py ''default'', py ''translator'', py ''programmer'', py ''teacher'',
                  py ''business_analyst'', py ''aws_sa''} \<longrightarrow>
      fst (set_role role_type c) = True \<and> current_role (snd (set_role role_type c)) = role_type)"
  using dom_ROLE_PROMPTS[of role_type] by (auto simp: set_role_def)

theorem set_role_by_membership_witness:
  "set_role (py ''pirate'') demo_chat1 = (False, demo_chat1) \<and>
   fst (set_role (py ''teacher'') demo_chat1) = True \<and>
   current_role (snd (set_role (py ''teacher'') demo_chat1)) = py ''teacher''"
  using set_role_by_membership[of "py ''pirate''" demo_chat1]
    set_role_by_membership[of "py ''teacher''" demo_chat1]
  by (simp add: py_eq_iff)

subsection \<open>Clearing\<close>

text \<open>
  C8. Whatever the history was, after \<open>clear_history\<close> it is the empty list, and reading
  it as \<open>get_response\<close> does yields no message.
\<close>

theorem clear_history_empties:
  "conversation_history (clear_history c) = JArr [] \<and>
   messages (conversation_history (clear_history c)) = Inr []"
  by (simp add: clear_history_def)

theorem clear_history_empties_witness:
  "conversation_history (clear_history demo_chat1) = JArr [] \<and>
   messages (conversation_history (clear_history demo_chat1)) = Inr []"
  using clear_history_empties[of demo_chat1] by simp

text \<open>
  C9. \<open>set_role\<close> leaves the history and the model identifier as they are, whether it
  accepts the name or not; \<open>clear_history\<close> leaves the current role and the model
  identifier as they are. Neither touches the world.
\<close>

theorem set_role_clear_history_frame:
  "conversation_history (snd (set_role role_type c)) = conversation_history c \<and>
   model_id (snd (set_role role_type c)) = model_id c \<and>
   current_role (clear_history c) = current_role c \<and>
   model_id (clear_history c) = model_id c"
  by (simp add: set_role_def clear_history_def)

theorem set_role_clear_history_frame_witness:
  "conversation_history (snd (set_role (py ''teacher'') demo_chat1)) = demo_history \<and>
   conversation_history (snd (set_role (py ''pirate'') demo_chat1)) = demo_history \<and>
   model_id (snd (set_role (py ''teacher'') demo_chat1)) =
     py ''anthropic.claude-3-sonnet-20240229-v1:0'' \<and>
   current_role (clear_history demo_chat1) = py ''translator'' \<and>
   model_id (clear_history demo_chat1) = py ''anthropic.claude-3-sonnet-20240229-v1:0''"
  using set_role_clear_history_frame[of "py ''teacher''" demo_chat1]
    set_role_clear_history_frame[of "py ''pirate''" demo_chat1]
  by (simp add: demo_chat1_def)

subsection \<open>What the methods leave as it is\<close>



















subsection \<open>The current role\<close>





subsection \<open>The request\<close>




subsection \<open>Saving and loading\<close>

lemma load_typed: "str_lower (str_strip (py '' LOAD '')) = py ''load''"
  by (simp add: str_lower_def str_strip_def str_isspace_def lower_char_def py_def)



text \<open>
  C7. Loading a path that names no file returns (nothing is raised), prints the
  not-found message and leaves the session as it is. The other failures are told apart
  from it: a file that cannot be opened, or whose text \<open>json.load\<close> rejects, raises out of
  \<open>load_conversation\<close> with the session as it is, and main reports that exception instead.
  In main the load command on a missing file ends the iteration with Continue.
\<close>

theorem load_missing_file_reported:
  "(files w filename = Missing \<longrightarrow>
      load_conversation filename (w, c) = Inr ((), print Out_not_found w, c)) \<and>
   (files w filename = Denied \<longrightarrow>
      load_conversation filename (w, c) = Inl (PermissionError, w, c)) \<and>
   (files w filename = Text t \<and> json_load w t = Inl e \<and> e \<noteq> FileNotFoundError \<longrightarrow>
      load_conversation filename (w, c) = Inl (e, w, c)) \<and>
   (stdin w = Line l # rest \<and> str_lower (str_strip l) = py ''load'' \<and>
    files w (py ''chat_history.json'') = Missing \<longrightarrow>
      main_step (w, c) =
        (Continue, print Out_not_found ((print Prompt_you w)\<lparr>stdin := rest\<rparr>), c)) \<and>
   (stdin w = Line l # rest \<and> str_lower (str_strip l) = py ''load'' \<and>
    files w (py ''chat_history.json'') = Denied \<longrightarrow>
      main_step (w, c) =
        (Continue, print (Out_unexpected PermissionError) ((print Prompt_you w)\<lparr>stdin := rest\<rparr>), c))"
proof -
  have a: "files w filename = Missing \<longrightarrow>
      load_conversation filename (w, c) = Inr ((), print Out_not_found w, c)"
    by (simp add: load_conversation_def load_conversation_try_def open_read_def)
  have b: "files w filename = Denied \<longrightarrow>
      load_conversation filename (w, c) = Inl (PermissionError, w, c)"
    by (simp add: load_conversation_def load_conversation_try_def open_read_def)
  have c: "files w filename = Text t \<and> json_load w t = Inl e \<and> e \<noteq> FileNotFoundError \<longrightarrow>
      load_conversation filename (w, c) = Inl (e, w, c)"
    by (simp add: load_conversation_def load_conversation_try_def open_read_def)
  have d: "stdin w = Line l # rest \<and> str_lower (str_strip l) = py ''load'' \<and>
    files w (py ''chat_history.json'') = Missing \<longrightarrow>
      main_step (w, c) =
        (Continue, print Out_not_found ((print Prompt_you w)\<lparr>stdin := rest\<rparr>), c)"
    by (simp add: main_step_def main_try_def input_def print_def str_startswith_def py_def
        load_conversation_def load_conversation_try_def open_read_def)
  have e: "stdin w = Line l # rest \<and> str_lower (str_strip l) = py ''load'' \<and>
    files w (py ''chat_history.json'') = Denied \<longrightarrow>
      main_step (w, c) =
        (Continue, print (Out_unexpected PermissionError) ((print Prompt_you w)\<lparr>stdin := rest\<rparr>), c)"
    by (simp add: main_step_def main_try_def input_def print_def str_startswith_def py_def
        load_conversation_def load_conversation_try_def open_read_def)
  from a b c d e show ?thesis by blast
qed

theorem load_missing_file_reported_witness:
  "load_conversation (py ''chat_history.json'') (load_world, demo_chat1) =
     Inr ((), print Out_not_found load_world, demo_chat1) \<and>
   load_conversation (py ''chat_history.json'') (denied_world, demo_chat1) =
     Inl (PermissionError, denied_world, demo_chat1) \<and>
   load_conversation (py ''chat_history.json'') (garbled_world, demo_chat1) =
     Inl (JSONDecodeError, garbled_world, demo_chat1) \<and>
   main_step (load_world, demo_chat1) =
     (Continue, print Out_not_found ((print Prompt_you load_world)\<lparr>stdin := []\<rparr>), demo_chat1) \<and>
   main_step (denied_world, demo_chat1) =
     (Continue,
      print (Out_unexpected PermissionError) ((print Prompt_you denied_world)\<lparr>stdin := []\<rparr>),
      demo_chat1)"
proof -
  have f1: "files load_world (py ''chat_history.json'') = Missing"
    by (simp add: load_world_def demo_world_def)
  have f2: "files denied_world (py ''chat_history.json'') = Denied"
    by (simp add: denied_world_def)
  have f3: "files garbled_world (py ''chat_history.json'') = Text (py ''{'') \<and>
            json_load garbled_world (py ''{'') = Inl JSONDecodeError \<and>
            JSONDecodeError \<noteq> FileNotFoundError"
    by (simp add: garbled_world_def load_world_def demo_world_def py_eq_iff)
  have s1: "stdin load_world = Line (py '' LOAD '') # []"
    by (simp add: load_world_def)
  have s2: "stdin denied_world = Line (py '' LOAD '') # []"
    by (simp add: denied_world_def load_world_def)
  from load_missing_file_reported[of load_world "py ''chat_history.json''" demo_chat1
      "py ''{''" JSONDecodeError "py '' LOAD ''" "[]"]
    load_missing_file_reported[of denied_world "py ''chat_history.json''" demo_chat1
      "py ''{''" JSONDecodeError "py '' LOAD ''" "[]"]
    load_missing_file_reported[of garbled_world "py ''chat_history.json''" demo_chat1
      "py ''{''" JSONDecodeError "py '' LOAD ''" "[]"]
    f1 f2 f3 s1 s2 load_typed
  show ?thesis by simp
qed

subsection \<open>The command loop\<close>

text \<open>
  C10. When the line typed is empty once stripped of whitespace, the iteration of the loop
  only prints the prompt and consumes the line: it continues with the same session (no
  turn added, same role), sends no request, reads no clock and touches no file.
\<close>

theorem blank_input_is_no_op:
  assumes "stdin w = Line l # rest" and "str_strip l = []"
  shows "main_step (w, c) = (Continue, (print Prompt_you w)\<lparr>stdin := rest\<rparr>, c) \<and>
         snd (snd (main_step (w, c))) = c \<and>
         requests (fst (snd (main_step (w, c)))) = requests w \<and>
         ticks (fst (snd (main_step (w, c)))) = ticks w \<and>
         files (fst (snd (main_step (w, c)))) = files w \<and>
         stdout (fst (snd (main_step (w, c)))) = stdout w @ [Prompt_you]"
  using assms
  by (simp add: main_step_def main_try_def input_def print_def str_lower_def
      str_startswith_def py_def)

theorem blank_input_is_no_op_witness:
  "main_step (blank_world, demo_chat1) =
     (Continue, (print Prompt_you blank_world)\<lparr>stdin := []\<rparr>, demo_chat1) \<and>
   requests (fst (snd (main_step (blank_world, demo_chat1)))) = [] \<and>
   stdout (fst (snd (main_step (blank_world, demo_chat1)))) = [Prompt_you]"
proof -
  have 1: "stdin blank_world = Line [32, 9, 12288] # []"
    by (simp add: blank_world_def)
  have 2: "str_strip [32, 9, 12288] = []"
    by (simp add: str_strip_def str_isspace_def)
  from blank_input_is_no_op[OF 1 2, of demo_chat1] show ?thesis
    by (simp add: blank_world_def demo_world_def print_def)
qed

end
